theory Spec2Isabelle
  imports Complex_Main
begin

section \<open>JavaScript numbers\<close>

text \<open>
  Every price, quantity and amount of the program is a JavaScript Number, an IEEE 754 binary64
  value. A finite one is the rational it denotes; the two zeros are one value. The arithmetic of
  the program is the exact operation followed by rounding to the nearest binary64 value, ties to
  the even significand (\<open>f64\<close>), with overflow to the infinities and gradual underflow.
\<close>

datatype number = Num rat | PosInf | NegInf | NaN

fun bits :: "nat \<Rightarrow> nat" where
  "bits n = (if n = 0 then 0 else Suc (bits (n div 2)))"

declare bits.simps [simp del]

definition pow2 :: "int \<Rightarrow> rat" where
  "pow2 k = (if 0 \<le> k then 2 ^ nat k else 1 / 2 ^ nat (- k))"

text \<open>For \<open>0 < x\<close>, \<open>exponent x\<close> is the \<open>e\<close> with \<open>2\<^sup>e \<le> x < 2\<^sup>e\<^sup>+\<^sup>1\<close>.\<close>

definition exponent :: "rat \<Rightarrow> int" where
  "exponent x =
     (if 1 \<le> x then int (bits (nat \<lfloor>x\<rfloor>)) - 1
      else - int (bits (nat \<lceil>1 / x\<rceil> - 1)))"

definition round_even :: "rat \<Rightarrow> int" where
  "round_even x =
     (let f = \<lfloor>x\<rfloor>; d = x - of_int f
      in if d < 1 / 2 then f else if 1 / 2 < d then f + 1 else if even f then f else f + 1)"

definition f64 :: "rat \<Rightarrow> number" where
  "f64 x =
     (if x = 0 then Num 0
      else let u = pow2 (max (exponent \<bar>x\<bar>) (- 1022) - 52);
               y = of_int (round_even (x / u)) * u
           in if pow2 1024 \<le> \<bar>y\<bar> then (if 0 < x then PosInf else NegInf) else Num y)"

fun js_add :: "number \<Rightarrow> number \<Rightarrow> number" where
  "js_add (Num a) (Num b) = f64 (a + b)"
| "js_add NaN y = NaN"
| "js_add x NaN = NaN"
| "js_add PosInf NegInf = NaN"
| "js_add NegInf PosInf = NaN"
| "js_add PosInf y = PosInf"
| "js_add NegInf y = NegInf"
| "js_add x PosInf = PosInf"
| "js_add x NegInf = NegInf"

fun js_neg :: "number \<Rightarrow> number" where
  "js_neg (Num a) = Num (- a)"
| "js_neg PosInf = NegInf"
| "js_neg NegInf = PosInf"
| "js_neg NaN = NaN"

text \<open>The sign of a number that is not \<open>NaN\<close>: \<open>-1\<close>, \<open>0\<close> or \<open>1\<close>.\<close>

fun js_sign :: "number \<Rightarrow> int" where
  "js_sign (Num a) = (if a < 0 then - 1 else if a = 0 then 0 else 1)"
| "js_sign PosInf = 1"
| "js_sign NegInf = - 1"
| "js_sign NaN = 0"

fun js_mul :: "number \<Rightarrow> number \<Rightarrow> number" where
  "js_mul (Num a) (Num b) = f64 (a * b)"
| "js_mul NaN y = NaN"
| "js_mul x NaN = NaN"
| "js_mul x y =
     (if js_sign x * js_sign y = 0 then NaN
      else if js_sign x * js_sign y = 1 then PosInf else NegInf)"

text \<open>\<open>x / 100\<close>, the only division of the program.\<close>

fun div100 :: "number \<Rightarrow> number" where
  "div100 (Num a) = f64 (a / 100)"
| "div100 x = x"

text \<open>\<open>x < y\<close>; \<open>x > y\<close> is \<open>js_lt y x\<close>. A comparison with \<open>NaN\<close> is false.\<close>

fun js_lt :: "number \<Rightarrow> number \<Rightarrow> bool" where
  "js_lt (Num a) (Num b) = (a < b)"
| "js_lt NaN y = False"
| "js_lt x NaN = False"
| "js_lt x NegInf = False"
| "js_lt PosInf y = False"
| "js_lt NegInf y = True"
| "js_lt x PosInf = True"

text \<open>\<open>x <= y\<close>.\<close>

fun js_le :: "number \<Rightarrow> number \<Rightarrow> bool" where
  "js_le (Num a) (Num b) = (a \<le> b)"
| "js_le NaN y = False"
| "js_le x NaN = False"
| "js_le NegInf y = True"
| "js_le x PosInf = True"
| "js_le x NegInf = False"
| "js_le PosInf y = False"

text \<open>\<open>!x\<close> holds of zero and of \<open>NaN\<close>.\<close>

definition falsy :: "number \<Rightarrow> bool" where
  "falsy x = (x = Num 0 \<or> x = NaN)"

fun isInteger :: "number \<Rightarrow> bool" where
  "isInteger (Num a) = (of_int \<lfloor>a\<rfloor> = a)"
| "isInteger x = False"

text \<open>
  \<open>Math.round(x)\<close> is the integer nearest to \<open>x\<close>, the upper one of two that are equally near;
  it involves no rounding error.
\<close>

fun Math_round :: "number \<Rightarrow> number" where
  "Math_round (Num a) = Num (of_int \<lfloor>a + 1 / 2\<rfloor>)"
| "Math_round x = x"

section \<open>Document ids\<close>

text \<open>
  A stored id is an \<open>ObjectId\<close>, written as \<open>toString()\<close> prints it: 24 hexadecimal digits in
  lower case. An id that arrives with a request is any string. \<open>findById\<close> casts it first: a
  string of 24 hexadecimal digits, in either case, is cast to the \<open>ObjectId\<close> with those
  digits, and the cast of any other string throws (other forms that some driver versions
  accept are taken as malformed).
\<close>

type_synonym objectId = string

definition isHexDigit :: "char \<Rightarrow> bool" where
  "isHexDigit c = (c \<in> set ''0123456789abcdefABCDEF'')"

definition lowerHex :: "char \<Rightarrow> char" where
  "lowerHex c =
     (case map_of [(CHR ''A'', CHR ''a''), (CHR ''B'', CHR ''b''), (CHR ''C'', CHR ''c''),
                   (CHR ''D'', CHR ''d''), (CHR ''E'', CHR ''e''), (CHR ''F'', CHR ''f'')] c of
        None \<Rightarrow> c
      | Some l \<Rightarrow> l)"

definition castObjectId :: "string \<Rightarrow> objectId option" where
  "castObjectId str =
     (if length str = 24 \<and> list_all isHexDigit str then Some (map lowerHex str) else None)"

section \<open>Data model\<close>

text \<open>
  The cart controller works on three MongoDB collections through Mongoose models:
  users (each user document carries a \<open>cart\<close> array of \<open>{productId, quantity}\<close> lines and an
  \<open>address\<close>), products (\<open>models/Product.js\<close>) and orders. The database is a record of
  three collections, each keyed by the stored id; every handler takes the database and returns
  its HTTP outcome together with the database it leaves behind. The fields of an order are
  those of the \<open>new Order({...})\<close> call in \<open>checkout\<close> (the order schema itself is not among
  the sources).
\<close>

datatype product_status = Active | Inactive | Discontinued

record product =
  productName :: string
  price :: number
  quantity :: number
  status :: product_status

record cart_item =
  productId :: objectId
  cart_quantity :: number

text \<open>
  Modelled from the spec: the \<open>cart\<close> path of the user document. The user schema among the
  sources declares \<open>address\<close> but no \<open>cart\<close>; the controller and the dashboard read and
  write \<open>user.cart\<close> as an array of lines \<open>{productId, quantity}\<close>, which is the
  specification's CartLine (a reference into the products and a quantity, owned by one user).
  The reference is an \<open>ObjectId\<close>, as \<open>populate\<close> needs, so a pushed line stores the cast id.
\<close>

record user =
  address :: string
  cart :: "cart_item list"

record order_item =
  item_productId :: objectId
  item_productName :: string
  item_price :: number
  item_quantity :: number
  item_subtotal :: number

record order =
  order_oid :: objectId
  userId :: objectId
  orderId :: string
  items :: "order_item list"
  subtotal :: number
  tax :: number
  total :: number
  shippingAddress :: string
  order_status :: string
  paymentStatus :: string

record db =
  users :: "objectId \<rightharpoonup> user"
  products :: "objectId \<rightharpoonup> product"
  orders :: "order list"

text \<open>
  A cart line after \<open>populate("cart.productId")\<close>: the reference is replaced by the product
  document, or by \<open>null\<close> (here \<open>None\<close>) when no product has that id.
\<close>

record populated_item =
  ref :: objectId
  doc :: "product option"
  qty :: number

section \<open>Outcomes and storage failures\<close>

text \<open>
  Every early \<open>return res.status(4xx)\<close> of the controller is a constructor of \<open>failure\<close>;
  \<open>InternalError\<close> is the \<open>catch\<close> block (status 500) that every handler ends with, which also
  receives the throw of a failed cast. \<open>InsufficientStock n\<close> carries the available amount the
  message reports. The status codes are 400 for \<open>MissingFields\<close>, \<open>InvalidQuantity\<close>,
  \<open>InsufficientStock\<close> and \<open>EmptyCart\<close>, 404 for the four \<open>NotFound\<close> outcomes and 403 for
  \<open>Unauthorized\<close>. A handler that succeeds returns \<open>Inr\<close> of its response body.
\<close>

datatype failure =
    MissingFields
  | InvalidQuantity
  | UserNotFound
  | ProductNotFound
  | InsufficientStock number
  | LineNotFound
  | EmptyCart
  | OrderNotFound
  | Unauthorized
  | InternalError

text \<open>
  The awaited storage calls of a handler. A handler is run against a list of the calls that
  throw in that run; the empty list is a run in which the storage layer works. The index of
  \<open>FindProduct\<close> and \<open>UpdateProduct\<close> is the position of the cart line the call is made for
  (\<open>0\<close> in the handlers that look up one product).
\<close>

datatype storage_call =
    FindUser
  | FindProduct nat
  | SaveUser
  | ReloadUser
  | CountOrders
  | SaveOrder
  | UpdateProduct nat
  | FindOrder

type_synonym faults = "storage_call list"

section \<open>Cart handlers\<close>

text \<open>
  In every handler \<open>uid\<close> is \<open>req.user.userId\<close> and \<open>pid\<close> the product id of the request, both
  as the strings they arrive as, and \<open>q\<close> is the quantity of the request body.
\<close>

definition populate :: "db \<Rightarrow> cart_item list \<Rightarrow> populated_item list" where
  "populate s lines =
     map (\<lambda>item. \<lparr>ref = productId item, doc = products s (productId item),
                   qty = cart_quantity item\<rparr>) lines"

text \<open>
  The tail shared by \<open>addToCart\<close>, \<open>removeFromCart\<close> and \<open>updateCartQuantity\<close>:
  \<open>await user.save()\<close>, then the user is read again with the cart populated and the populated
  cart is the response. A throw of the second read comes after the save has been stored.
  \<open>cuid\<close> is the stored id of the user document.
\<close>

definition reloadCart :: "faults \<Rightarrow> objectId \<Rightarrow> db \<Rightarrow> failure + populated_item list" where
  "reloadCart fl cuid s =
     (if ReloadUser \<in> set fl then Inl InternalError
      else case users s cuid of
             None \<Rightarrow> Inl InternalError
           | Some u \<Rightarrow> Inr (populate s (cart u)))"

definition saveCart ::
  "faults \<Rightarrow> objectId \<Rightarrow> user \<Rightarrow> db \<Rightarrow> (failure + populated_item list) \<times> db" where
  "saveCart fl cuid u s =
     (if SaveUser \<in> set fl then (Inl InternalError, s)
      else let s' = s\<lparr>users := (users s)(cuid \<mapsto> u)\<rparr>
           in (reloadCart fl cuid s', s'))"

text \<open>
  \<open>user.cart.find((item) => item.productId.toString() === productId)\<close> compares the stored
  id of each line with the request string as it is, and returns a reference to the first
  matching line; the handlers assign to its \<open>quantity\<close>, which overwrites that line in place.
\<close>

fun setQuantity :: "string \<Rightarrow> number \<Rightarrow> cart_item list \<Rightarrow> cart_item list" where
  "setQuantity pid n [] = []"
| "setQuantity pid n (item # rest) =
     (if productId item = pid then item\<lparr>cart_quantity := n\<rparr> # rest
      else item # setQuantity pid n rest)"

definition addToCart ::
  "faults \<Rightarrow> string \<Rightarrow> string \<Rightarrow> number \<Rightarrow> db \<Rightarrow> (failure + populated_item list) \<times> db" where
  "addToCart fl uid pid q s =
     (if pid = [] \<or> falsy q then (Inl MissingFields, s)
      else if js_le q (Num 0) \<or> \<not> isInteger q then (Inl InvalidQuantity, s)
      else if FindUser \<in> set fl then (Inl InternalError, s)
      else case castObjectId uid of
        None \<Rightarrow> (Inl InternalError, s)
      | Some cuid \<Rightarrow>
      (case users s cuid of
        None \<Rightarrow> (Inl UserNotFound, s)
      | Some u \<Rightarrow>
          if FindProduct 0 \<in> set fl then (Inl InternalError, s)
          else case castObjectId pid of
            None \<Rightarrow> (Inl InternalError, s)
          | Some cpid \<Rightarrow>
          (case products s cpid of
            None \<Rightarrow> (Inl ProductNotFound, s)
          | Some p \<Rightarrow>
              if js_lt (quantity p) q then (Inl (InsufficientStock (quantity p)), s)
              else case find (\<lambda>item. productId item = pid) (cart u) of
                Some existingCartItem \<Rightarrow>
                  let newQuantity = js_add (cart_quantity existingCartItem) q
                  in if js_lt (quantity p) newQuantity
                     then (Inl (InsufficientStock (quantity p)), s)
                     else saveCart fl cuid
                            (u\<lparr>cart := setQuantity pid newQuantity (cart u)\<rparr>) s
              | None \<Rightarrow>
                  saveCart fl cuid
                    (u\<lparr>cart := cart u @ [\<lparr>productId = cpid, cart_quantity = q\<rparr>]\<rparr>) s)))"

text \<open>
  \<open>getCart\<close>: the total is a \<open>reduce\<close> from \<open>0\<close> over the populated cart. Reading \<open>price\<close> of a
  \<open>null\<close> product throws, which the \<open>catch\<close> block turns into status 500.
\<close>

fun cartTotal :: "number \<Rightarrow> populated_item list \<Rightarrow> number option" where
  "cartTotal acc [] = Some acc"
| "cartTotal acc (item # rest) =
     (case doc item of
        None \<Rightarrow> None
      | Some p \<Rightarrow> cartTotal (js_add acc (js_mul (price p) (qty item))) rest)"

record cart_view =
  view_cart :: "populated_item list"
  view_total :: number
  itemCount :: nat

definition getCart :: "faults \<Rightarrow> string \<Rightarrow> db \<Rightarrow> (failure + cart_view) \<times> db" where
  "getCart fl uid s =
     (if FindUser \<in> set fl then (Inl InternalError, s)
      else case castObjectId uid of
        None \<Rightarrow> (Inl InternalError, s)
      | Some cuid \<Rightarrow>
      (case users s cuid of
        None \<Rightarrow> (Inl UserNotFound, s)
      | Some u \<Rightarrow>
          (case cartTotal (Num 0) (populate s (cart u)) of
             None \<Rightarrow> (Inl InternalError, s)
           | Some t \<Rightarrow>
               (Inr \<lparr>view_cart = populate s (cart u), view_total = t,
                     itemCount = length (cart u)\<rparr>, s))))"

text \<open>
  \<open>removeFromCart\<close> casts no product id: the filter compares the stored ids with the request
  string as it is.
\<close>

definition removeFromCart ::
  "faults \<Rightarrow> string \<Rightarrow> string \<Rightarrow> db \<Rightarrow> (failure + populated_item list) \<times> db" where
  "removeFromCart fl uid pid s =
     (if FindUser \<in> set fl then (Inl InternalError, s)
      else case castObjectId uid of
        None \<Rightarrow> (Inl InternalError, s)
      | Some cuid \<Rightarrow>
      (case users s cuid of
        None \<Rightarrow> (Inl UserNotFound, s)
      | Some u \<Rightarrow>
          saveCart fl cuid
            (u\<lparr>cart := filter (\<lambda>item. productId item \<noteq> pid) (cart u)\<rparr>) s))"

definition updateCartQuantity ::
  "faults \<Rightarrow> string \<Rightarrow> string \<Rightarrow> number \<Rightarrow> db \<Rightarrow> (failure + populated_item list) \<times> db" where
  "updateCartQuantity fl uid pid q s =
     (if falsy q \<or> js_le q (Num 0) \<or> \<not> isInteger q then (Inl InvalidQuantity, s)
      else if FindUser \<in> set fl then (Inl InternalError, s)
      else case castObjectId uid of
        None \<Rightarrow> (Inl InternalError, s)
      | Some cuid \<Rightarrow>
      (case users s cuid of
        None \<Rightarrow> (Inl UserNotFound, s)
      | Some u \<Rightarrow>
          if FindProduct 0 \<in> set fl then (Inl InternalError, s)
          else case castObjectId pid of
            None \<Rightarrow> (Inl InternalError, s)
          | Some cpid \<Rightarrow>
          (case products s cpid of
            None \<Rightarrow> (Inl ProductNotFound, s)
          | Some p \<Rightarrow>
              if js_lt (quantity p) q then (Inl (InsufficientStock (quantity p)), s)
              else case find (\<lambda>item. productId item = pid) (cart u) of
                None \<Rightarrow> (Inl LineNotFound, s)
              | Some cartItem \<Rightarrow>
                  saveCart fl cuid (u\<lparr>cart := setQuantity pid q (cart u)\<rparr>) s)))"

definition clearCart ::
  "faults \<Rightarrow> string \<Rightarrow> db \<Rightarrow> (failure + cart_item list) \<times> db" where
  "clearCart fl uid s =
     (if FindUser \<in> set fl then (Inl InternalError, s)
      else case castObjectId uid of
        None \<Rightarrow> (Inl InternalError, s)
      | Some cuid \<Rightarrow>
      (case users s cuid of
        None \<Rightarrow> (Inl UserNotFound, s)
      | Some u \<Rightarrow>
          if SaveUser \<in> set fl then (Inl InternalError, s)
          else (Inr [], s\<lparr>users := (users s)(cuid \<mapsto> u\<lparr>cart := []\<rparr>)\<rparr>)))"

section \<open>Checkout\<close>

text \<open>
  \<open>String(n)\<close> for a non-negative integer is its decimal numeral; \<open>s.padStart(w, c)\<close> puts
  copies of \<open>c\<close> in front of \<open>s\<close> until the length is \<open>w\<close> and leaves a longer string alone.
\<close>

definition digit_char :: "nat \<Rightarrow> char" where
  "digit_char d = char_of (48 + d)"

function String_nat :: "nat \<Rightarrow> string" where
  "String_nat n =
     (if n < 10 then [digit_char n] else String_nat (n div 10) @ [digit_char (n mod 10)])"
  by pat_completeness auto
termination
  by (relation "measure id") auto

declare String_nat.simps [simp del]

definition padStart :: "nat \<Rightarrow> char \<Rightarrow> string \<Rightarrow> string" where
  "padStart w c str = replicate (w - length str) c @ str"

text \<open>
  The validation loop (\<open>Validate stock for all items\<close>) runs over the populated cart. Reading
  \<open>_id\<close> of a \<open>null\<close> product throws; otherwise the product is read again by its id and its
  stock is compared with the line's quantity. The loop returns the first failure, if any.
\<close>

fun validateStock :: "faults \<Rightarrow> db \<Rightarrow> nat \<Rightarrow> populated_item list \<Rightarrow> failure option" where
  "validateStock fl s i [] = None"
| "validateStock fl s i (cartItem # rest) =
     (case doc cartItem of
        None \<Rightarrow> Some InternalError
      | Some populated \<Rightarrow>
          if FindProduct i \<in> set fl then Some InternalError
          else case products s (ref cartItem) of
            None \<Rightarrow> Some ProductNotFound
          | Some product \<Rightarrow>
              if js_lt (quantity product) (qty cartItem)
              then Some (InsufficientStock (quantity product))
              else validateStock fl s (Suc i) rest)"

text \<open>
  \<open>user.cart.map(...)\<close> builds the order lines from the populated cart; the price and the name
  are those of the populated product. \<open>None\<close> is the throw on a \<open>null\<close> product.
\<close>

fun orderItems :: "populated_item list \<Rightarrow> order_item list option" where
  "orderItems [] = Some []"
| "orderItems (cartItem # rest) =
     (case doc cartItem of
        None \<Rightarrow> None
      | Some p \<Rightarrow>
          (case orderItems rest of
             None \<Rightarrow> None
           | Some its \<Rightarrow>
               Some (\<lparr>item_productId = ref cartItem, item_productName = productName p,
                      item_price = price p, item_quantity = qty cartItem,
                      item_subtotal = js_mul (price p) (qty cartItem)\<rparr> # its)))"

text \<open>
  The totals. \<open>rawSubtotal\<close> is \<open>orderItems.reduce((sum, item) => sum + item.subtotal, 0)\<close>;
  the literal \<open>0.1\<close> is the binary64 value nearest to one tenth. The tax and the total are
  computed from the sum before it is rounded for the \<open>subtotal\<close> field.
\<close>

definition rawSubtotal :: "order_item list \<Rightarrow> number" where
  "rawSubtotal its = foldl (\<lambda>acc item. js_add acc (item_subtotal item)) (Num 0) its"

definition orderSubtotal :: "number \<Rightarrow> number" where
  "orderSubtotal sub = div100 (Math_round (js_mul sub (Num 100)))"

definition orderTax :: "number \<Rightarrow> number" where
  "orderTax sub = div100 (Math_round (js_mul (js_mul sub (f64 (1 / 10))) (Num 100)))"

definition orderTotal :: "number \<Rightarrow> number" where
  "orderTotal sub = div100 (Math_round (js_mul (js_add sub (orderTax sub)) (Num 100)))"

definition makeOrderId :: "nat \<Rightarrow> string" where
  "makeOrderId orderCount = ''ORD-'' @ padStart 3 (CHR ''0'') (String_nat (orderCount + 1))"

text \<open>
  The document of \<open>new Order({...})\<close>; \<open>orderCount\<close> is the result of
  \<open>Order.countDocuments()\<close>, \<open>newId\<close> the fresh \<open>_id\<close> the driver gives the document and
  \<open>cuid\<close> the user's id.
\<close>

definition newOrder :: "objectId \<Rightarrow> objectId \<Rightarrow> user \<Rightarrow> order_item list \<Rightarrow> nat \<Rightarrow> order" where
  "newOrder newId cuid u its orderCount =
     \<lparr>order_oid = newId, userId = cuid,
      orderId = makeOrderId orderCount,
      items = its,
      subtotal = orderSubtotal (rawSubtotal its),
      tax = orderTax (rawSubtotal its),
      total = orderTotal (rawSubtotal its),
      shippingAddress = address u,
      order_status = ''pending'',
      paymentStatus = ''pending''\<rparr>"

text \<open>
  The handler awaits the storage layer many times, and between two awaits the handlers of other
  requests may run. Its body is therefore given in four parts, each a function of the database
  at the time it runs; \<open>checkout\<close> below runs them back to back.

  \<open>checkout_validate\<close> is the first part, up to the totals: the user is read with the cart
  populated, the cart must not be empty, the validation loop runs and the order lines are built.
  It only reads. Its result is what the handler then holds in memory.
\<close>

record validated_cart =
  vc_userId :: objectId
  vc_user :: user
  vc_cart :: "populated_item list"
  vc_items :: "order_item list"

definition checkout_validate :: "faults \<Rightarrow> string \<Rightarrow> db \<Rightarrow> failure + validated_cart" where
  "checkout_validate fl uid s =
     (if FindUser \<in> set fl then Inl InternalError
      else case castObjectId uid of
        None \<Rightarrow> Inl InternalError
      | Some cuid \<Rightarrow>
      (case users s cuid of
        None \<Rightarrow> Inl UserNotFound
      | Some u \<Rightarrow>
          if length (cart u) = 0 then Inl EmptyCart
          else case validateStock fl s 0 (populate s (cart u)) of
            Some e \<Rightarrow> Inl e
          | None \<Rightarrow>
              (case orderItems (populate s (cart u)) of
                 None \<Rightarrow> Inl InternalError
               | Some its \<Rightarrow>
                   Inr \<lparr>vc_userId = cuid, vc_user = u, vc_cart = populate s (cart u),
                        vc_items = its\<rparr>)))"

text \<open>
  \<open>checkout_count\<close> is the second part: \<open>await Order.countDocuments()\<close> and the order document
  built from the count. It only reads.
\<close>

definition checkout_count ::
  "faults \<Rightarrow> objectId \<Rightarrow> validated_cart \<Rightarrow> db \<Rightarrow> failure + order" where
  "checkout_count fl newId vc s =
     (if CountOrders \<in> set fl then Inl InternalError
      else Inr (newOrder newId (vc_userId vc) (vc_user vc) (vc_items vc) (length (orders s))))"

text \<open>\<open>checkout_save\<close> is the third part: \<open>await order.save()\<close>.\<close>

definition checkout_save :: "faults \<Rightarrow> order \<Rightarrow> db \<Rightarrow> failure + db" where
  "checkout_save fl ord s =
     (if SaveOrder \<in> set fl then Inl InternalError
      else Inr (s\<lparr>orders := orders s @ [ord]\<rparr>))"

text \<open>
  \<open>findByIdAndUpdate(id, {$inc: {quantity: -n}})\<close> adds \<open>-n\<close> to the stored quantity of the
  product with that id, whatever the stored quantity is, and does nothing when there is no such
  product. The database adds integers exactly where the program's arithmetic would, and
  binary64 values as the program does.
\<close>

definition incQuantity ::
  "objectId \<Rightarrow> number \<Rightarrow> (objectId \<rightharpoonup> product) \<Rightarrow> (objectId \<rightharpoonup> product)" where
  "incQuantity pid d ps =
     (case ps pid of
        None \<Rightarrow> ps
      | Some p \<Rightarrow> ps(pid \<mapsto> p\<lparr>quantity := js_add (quantity p) d\<rparr>))"

text \<open>
  The loop \<open>Update product quantities (reduce stock)\<close>. The flag is \<open>True\<close> when a storage
  call threw; the products are then those the earlier iterations left.
\<close>

fun updateQuantities ::
  "faults \<Rightarrow> nat \<Rightarrow> populated_item list \<Rightarrow> (objectId \<rightharpoonup> product)
     \<Rightarrow> (objectId \<rightharpoonup> product) \<times> bool" where
  "updateQuantities fl i [] ps = (ps, False)"
| "updateQuantities fl i (cartItem # rest) ps =
     (if UpdateProduct i \<in> set fl then (ps, True)
      else updateQuantities fl (Suc i) rest
             (incQuantity (ref cartItem) (js_neg (qty cartItem)) ps))"

text \<open>
  \<open>checkout_fulfil\<close> is the fourth part, after \<open>await order.save()\<close>: the stock is reduced
  line by line, the cart of the user document held in memory is emptied and the user saved.
\<close>

definition checkout_fulfil ::
  "faults \<Rightarrow> validated_cart \<Rightarrow> order \<Rightarrow> db \<Rightarrow> (failure + order) \<times> db" where
  "checkout_fulfil fl vc ord s =
     (let upd = updateQuantities fl 0 (vc_cart vc) (products s);
          s1 = s\<lparr>products := fst upd\<rparr>
      in if snd upd then (Inl InternalError, s1)
         else if SaveUser \<in> set fl then (Inl InternalError, s1)
         else (Inr ord,
               s1\<lparr>users := (users s1)(vc_userId vc \<mapsto> (vc_user vc)\<lparr>cart := []\<rparr>)\<rparr>))"

definition checkout :: "faults \<Rightarrow> string \<Rightarrow> objectId \<Rightarrow> db \<Rightarrow> (failure + order) \<times> db" where
  "checkout fl uid newId s =
     (case checkout_validate fl uid s of
        Inl e \<Rightarrow> (Inl e, s)
      | Inr vc \<Rightarrow>
          (case checkout_count fl newId vc s of
             Inl e \<Rightarrow> (Inl e, s)
           | Inr ord \<Rightarrow>
               (case checkout_save fl ord s of
                  Inl e \<Rightarrow> (Inl e, s)
                | Inr s1 \<Rightarrow> checkout_fulfil fl vc ord s1)))"

text \<open>
  \<open>getOrderById\<close>: \<open>ordId\<close> is the route parameter, cast by \<open>findById\<close>; the owner test
  compares the stored user id with \<open>req.user.userId\<close> as it is.
\<close>

definition getOrderById :: "faults \<Rightarrow> string \<Rightarrow> string \<Rightarrow> db \<Rightarrow> failure + order" where
  "getOrderById fl ordId uid s =
     (if FindOrder \<in> set fl then Inl InternalError
      else case castObjectId ordId of
        None \<Rightarrow> Inl InternalError
      | Some coid \<Rightarrow>
      (case find (\<lambda>ord. order_oid ord = coid) (orders s) of
        None \<Rightarrow> Inl OrderNotFound
      | Some ord \<Rightarrow> if userId ord \<noteq> uid then Inl Unauthorized else Inr ord))"

section \<open>Sequences of requests\<close>

datatype request =
    AddToCart string string number
  | GetCart string
  | RemoveFromCart string string
  | UpdateCartQuantity string string number
  | ClearCart string
  | Checkout string objectId

fun handle :: "faults \<Rightarrow> request \<Rightarrow> db \<Rightarrow> db" where
  "handle fl (AddToCart uid pid q) s = snd (addToCart fl uid pid q s)"
| "handle fl (GetCart uid) s = snd (getCart fl uid s)"
| "handle fl (RemoveFromCart uid pid) s = snd (removeFromCart fl uid pid s)"
| "handle fl (UpdateCartQuantity uid pid q) s = snd (updateCartQuantity fl uid pid q s)"
| "handle fl (ClearCart uid) s = snd (clearCart fl uid s)"
| "handle fl (Checkout uid newId) s = snd (checkout fl uid newId s)"

fun run :: "(faults \<times> request) list \<Rightarrow> db \<Rightarrow> db" where
  "run [] s = s"
| "run ((fl, r) # rs) s = run rs (handle fl r s)"

text \<open>
  Two checkout requests A and B in flight together, with the storage layer working. In
  \<open>checkout_overlapped\<close> both carts are validated, then A counts and saves its order, then B
  counts and saves, then both stocks are reduced. In \<open>checkout_lockstep\<close> each part of A runs
  just before the same part of B, so both requests count the orders before either has saved.
  \<open>None\<close> means that a request already failed before the stock is touched.
\<close>

definition checkout_overlapped ::
  "string \<Rightarrow> objectId \<Rightarrow> string \<Rightarrow> objectId \<Rightarrow> db
     \<Rightarrow> ((failure + order) \<times> (failure + order) \<times> db) option" where
  "checkout_overlapped uidA idA uidB idB s =
     (case checkout_validate [] uidA s of
        Inl e \<Rightarrow> None
      | Inr vcA \<Rightarrow>
     (case checkout_validate [] uidB s of
        Inl e \<Rightarrow> None
      | Inr vcB \<Rightarrow>
     (case checkout_count [] idA vcA s of
        Inl e \<Rightarrow> None
      | Inr ordA \<Rightarrow>
     (case checkout_save [] ordA s of
        Inl e \<Rightarrow> None
      | Inr s1 \<Rightarrow>
     (case checkout_count [] idB vcB s1 of
        Inl e \<Rightarrow> None
      | Inr ordB \<Rightarrow>
     (case checkout_save [] ordB s1 of
        Inl e \<Rightarrow> None
      | Inr s2 \<Rightarrow>
          let resA = checkout_fulfil [] vcA ordA s2;
              resB = checkout_fulfil [] vcB ordB (snd resA)
          in Some (fst resA, fst resB, snd resB)))))))"

definition checkout_lockstep ::
  "string \<Rightarrow> objectId \<Rightarrow> string \<Rightarrow> objectId \<Rightarrow> db
     \<Rightarrow> ((failure + order) \<times> (failure + order) \<times> db) option" where
  "checkout_lockstep uidA idA uidB idB s =
     (case checkout_validate [] uidA s of
        Inl e \<Rightarrow> None
      | Inr vcA \<Rightarrow>
     (case checkout_validate [] uidB s of
        Inl e \<Rightarrow> None
      | Inr vcB \<Rightarrow>
     (case checkout_count [] idA vcA s of
        Inl e \<Rightarrow> None
      | Inr ordA \<Rightarrow>
     (case checkout_count [] idB vcB s of
        Inl e \<Rightarrow> None
      | Inr ordB \<Rightarrow>
     (case checkout_save [] ordA s of
        Inl e \<Rightarrow> None
      | Inr s1 \<Rightarrow>
     (case checkout_save [] ordB s1 of
        Inl e \<Rightarrow> None
      | Inr s2 \<Rightarrow>
          let resA = checkout_fulfil [] vcA ordA s2;
              resB = checkout_fulfil [] vcB ordB (snd resA)
          in Some (fst resA, fst resB, snd resB)))))))"

section \<open>Notions used to state the properties\<close>

text \<open>
  The pricing rule in the words of the specification, over exact decimal amounts: rounding to
  two decimal places, half up, and totals in which the tax is taken from the rounded subtotal.
  \<open>order_totals\<close> reads the three amounts of a stored order.
\<close>

definition round2 :: "rat \<Rightarrow> rat" where
  "round2 x = of_int \<lfloor>x * 100 + 1 / 2\<rfloor> / 100"

definition spec_totals :: "(rat \<times> int) list \<Rightarrow> rat \<times> rat \<times> rat" where
  "spec_totals lines =
     (let sub = round2 (\<Sum>(unitPrice, n)\<leftarrow>lines. unitPrice * of_int n);
          tx = round2 (sub * (1 / 10))
      in (sub, tx, round2 (sub + tx)))"

definition order_totals :: "order \<Rightarrow> number \<times> number \<times> number" where
  "order_totals ord = (subtotal ord, tax ord, total ord)"

text \<open>
  The sum of a list of numbers as the program's \<open>reduce\<close> computes it, from the left and
  starting at \<open>0\<close>, and the totals of the program as a function of the lines alone, each line a
  unit price and a quantity: \<open>Math.round(x * 100) / 100\<close> is applied once to the sum, the tax is
  taken from the sum, and the total from the sum and the tax.
\<close>

definition js_sum :: "number list \<Rightarrow> number" where
  "js_sum xs = foldl js_add (Num 0) xs"

definition js_totals :: "(number \<times> number) list \<Rightarrow> number \<times> number \<times> number" where
  "js_totals lines =
     (let S = js_sum (map (\<lambda>(unitPrice, n). js_mul unitPrice n) lines);
          tx = div100 (Math_round (js_mul (js_mul S (f64 (1 / 10))) (Num 100)))
      in (div100 (Math_round (js_mul S (Num 100))), tx,
          div100 (Math_round (js_mul (js_add S tx) (Num 100)))))"

text \<open>
  The only writer of a product's status is \<open>updateProduct\<close> (\<open>if (status) product.status = status\<close>);
  \<open>setStatus\<close> is that assignment on the stored product.
\<close>

definition withStatus ::
  "objectId \<Rightarrow> product_status \<Rightarrow> (objectId \<rightharpoonup> product) \<Rightarrow> (objectId \<rightharpoonup> product)" where
  "withStatus pid st ps =
     (case ps pid of
        None \<Rightarrow> ps
      | Some p \<Rightarrow> ps(pid \<mapsto> p\<lparr>status := st\<rparr>))"

definition setStatus :: "objectId \<Rightarrow> product_status \<Rightarrow> db \<Rightarrow> db" where
  "setStatus pid st s = s\<lparr>products := withStatus pid st (products s)\<rparr>"

text \<open>The stored quantity of a product, if the product exists.\<close>

definition stock :: "objectId \<Rightarrow> db \<Rightarrow> number option" where
  "stock pid s = map_option quantity (products s pid)"

text \<open>The number a decimal numeral denotes, to read the counter back from an order id.\<close>

definition decimal_value :: "string \<Rightarrow> nat" where
  "decimal_value str = foldl (\<lambda>acc c. 10 * acc + (of_char c - 48)) 0 str"

section \<open>Example data\<close>

text \<open>
  Ids of users (\<open>a\<dots>\<close>), products (\<open>b\<dots>\<close>) and orders (\<open>c\<dots>\<close>). \<open>p1_upper\<close> is the id of
  product \<open>p1\<close> written with an upper-case digit: another string, cast to the same id.
\<close>

definition alice :: objectId where "alice = ''a00000000000000000000001''"
definition bob :: objectId where "bob = ''a00000000000000000000002''"
definition carol :: objectId where "carol = ''a00000000000000000000003''"
definition dave :: objectId where "dave = ''a00000000000000000000004''"
definition erin :: objectId where "erin = ''a00000000000000000000005''"
definition frank :: objectId where "frank = ''a00000000000000000000006''"
definition heidi :: objectId where "heidi = ''a00000000000000000000008''"
definition judy :: objectId where "judy = ''a00000000000000000000009''"

definition p1 :: objectId where "p1 = ''b00000000000000000000001''"
definition p2 :: objectId where "p2 = ''b00000000000000000000002''"
definition p3 :: objectId where "p3 = ''b00000000000000000000003''"
definition p4 :: objectId where "p4 = ''b00000000000000000000004''"
definition p5 :: objectId where "p5 = ''b00000000000000000000005''"
definition p6 :: objectId where "p6 = ''b00000000000000000000006''"
definition p1_upper :: string where "p1_upper = ''B00000000000000000000001''"

definition o1 :: objectId where "o1 = ''c00000000000000000000001''"
definition o2 :: objectId where "o2 = ''c00000000000000000000002''"

text \<open>
  Prices written as decimals are the binary64 values nearest to them (\<open>f64\<close>), as
  \<open>parseFloat\<close> gives them. \<open>bulk\<close> has \<open>2\<^sup>5\<^sup>3\<close> in stock.
\<close>

definition widget :: product where
  "widget = \<lparr>productName = ''Widget'', price = Num 10, quantity = Num 5, status = Active\<rparr>"

definition gadget :: product where
  "gadget = \<lparr>productName = ''Gadget'', price = f64 (5005 / 1000), quantity = Num 20,
             status = Active\<rparr>"

definition sticker :: product where
  "sticker = \<lparr>productName = ''Sticker'', price = f64 (246 / 1000), quantity = Num 9,
              status = Active\<rparr>"

definition retired :: product where
  "retired = \<lparr>productName = ''Retired'', price = Num 7, quantity = Num 4,
              status = Discontinued\<rparr>"

definition bulk :: product where
  "bulk = \<lparr>productName = ''Bulk'', price = Num 1, quantity = Num (2 ^ 53), status = Active\<rparr>"

definition token :: product where
  "token = \<lparr>productName = ''Token'', price = f64 (35 / 100), quantity = Num 50,
            status = Active\<rparr>"

definition line :: "objectId \<Rightarrow> rat \<Rightarrow> cart_item" where
  "line pid n = \<lparr>productId = pid, cart_quantity = Num n\<rparr>"

definition shopper :: "cart_item list \<Rightarrow> user" where
  "shopper c = \<lparr>address = ''1 Main Street'', cart = c\<rparr>"

definition shop :: db where
  "shop =
     \<lparr>users = [alice \<mapsto> shopper [line p1 3],
               bob \<mapsto> shopper [line p1 3],
               carol \<mapsto> shopper [line p1 3, line p1 3],
               dave \<mapsto> shopper [line p3 1],
               erin \<mapsto> shopper [line p1 2, line p2 3],
               frank \<mapsto> shopper [],
               heidi \<mapsto> shopper [],
               judy \<mapsto> shopper [line p6 1]],
      products = [p1 \<mapsto> widget, p2 \<mapsto> gadget, p3 \<mapsto> sticker, p4 \<mapsto> retired, p5 \<mapsto> bulk,
                  p6 \<mapsto> token],
      orders = []\<rparr>"

lemmas id_defs =
  alice_def bob_def carol_def dave_def erin_def frank_def heidi_def judy_def
  p1_def p2_def p3_def p4_def p5_def p6_def p1_upper_def o1_def o2_def
  castObjectId_def isHexDigit_def lowerHex_def

lemmas shop_defs =
  shop_def shopper_def line_def widget_def gadget_def sticker_def retired_def bulk_def token_def

lemmas handler_defs =
  addToCart_def getCart_def removeFromCart_def updateCartQuantity_def clearCart_def
  saveCart_def reloadCart_def populate_def falsy_def

lemmas checkout_defs =
  checkout_def checkout_validate_def checkout_count_def checkout_save_def checkout_fulfil_def
  newOrder_def populate_def rawSubtotal_def orderSubtotal_def orderTax_def orderTotal_def
  incQuantity_def

section \<open>Evaluating the arithmetic\<close>

lemma floor_rat_numeral: "\<lfloor>numeral a / numeral b :: rat\<rfloor> = numeral a div numeral b"
  by (metis floor_divide_of_int_eq of_int_numeral)

lemma floor_rat_neg_numeral:
  "\<lfloor>- (numeral a / numeral b) :: rat\<rfloor> = - numeral a div numeral b"
  by (metis floor_divide_of_int_eq of_int_numeral of_int_minus minus_divide_left)

lemma ceiling_rat_numeral: "\<lceil>numeral a / numeral b :: rat\<rceil> = - (- numeral a div numeral b)"
  unfolding ceiling_def by (simp add: floor_rat_neg_numeral)

lemma floor_rat_one_over: "\<lfloor>1 / numeral b :: rat\<rfloor> = 1 div numeral b"
  by (metis floor_divide_of_int_eq of_int_numeral of_int_1)

lemma ceiling_rat_one_over: "\<lceil>1 / numeral b :: rat\<rceil> = - (- 1 div numeral b)"
  unfolding ceiling_def
  by (metis floor_divide_of_int_eq of_int_numeral of_int_minus minus_divide_left of_int_1)

lemma bits_numeral:
  "bits (numeral k) = Suc (bits (numeral k div 2))" "bits 0 = 0" "bits (Suc 0) = Suc 0"
  by (subst bits.simps, simp)+

lemmas num_eval =
  f64_def exponent_def pow2_def round_even_def Let_def bits_numeral
  floor_rat_numeral floor_rat_neg_numeral ceiling_rat_numeral floor_rat_one_over
  ceiling_rat_one_over

section \<open>Cart handlers: frame and removal\<close>

lemma products_saveCart: "products (snd (saveCart fl cuid u s)) = products s"
  by (simp add: saveCart_def Let_def)

lemma orders_saveCart: "orders (snd (saveCart fl cuid u s)) = orders s"
  by (simp add: saveCart_def Let_def)

text \<open>
  C8: the cart operations (\<open>addToCart\<close>, \<open>updateCartQuantity\<close>, \<open>removeFromCart\<close>,
  \<open>clearCart\<close>, \<open>getCart\<close>) leave the product collection exactly as it was, whatever their
  outcome: no product's quantity and no other product field is changed by them.
\<close>

theorem cart_operations_preserve_products:
  "products (snd (addToCart fl uid pid q s)) = products s \<and>
   products (snd (updateCartQuantity fl uid pid q s)) = products s \<and>
   products (snd (removeFromCart fl uid pid s)) = products s \<and>
   products (snd (clearCart fl uid s)) = products s \<and>
   products (snd (getCart fl uid s)) = products s"
  by (simp add: addToCart_def updateCartQuantity_def removeFromCart_def clearCart_def
      getCart_def products_saveCart Let_def split: option.split)

theorem cart_operations_preserve_products_witness:
  "products (snd (addToCart [] alice p1 (Num 2) shop)) = products shop \<and>
   products (snd (updateCartQuantity [] alice p1 (Num 2) shop)) = products shop \<and>
   products (snd (removeFromCart [] alice p1 shop)) = products shop \<and>
   products (snd (clearCart [] alice shop)) = products shop \<and>
   products (snd (getCart [] alice shop)) = products shop"
  by (rule cart_operations_preserve_products)

lemma filter_absent:
  "pid \<notin> productId ` set xs \<Longrightarrow> filter (\<lambda>item. productId item \<noteq> pid) xs = xs"
  by (induction xs) auto

lemma removeFromCart_absent:
  assumes "castObjectId uid = Some cuid" and "users s cuid = Some u"
    and "pid \<notin> productId ` set (cart u)"
  shows "removeFromCart [] uid pid s = (Inr (populate s (cart u)), s)"
  using assms
  by (simp add: removeFromCart_def saveCart_def reloadCart_def filter_absent Let_def
      populate_def fun_upd_idem)

lemma removeFromCart_twice:
  "removeFromCart [] uid pid (snd (removeFromCart [] uid pid s)) = removeFromCart [] uid pid s"
proof (cases "castObjectId uid")
  case None
  then show ?thesis by (simp add: removeFromCart_def)
next
  case (Some cuid)
  then show ?thesis
    by (cases "users s cuid")
       (simp_all add: removeFromCart_def saveCart_def reloadCart_def Let_def populate_def)
qed

text \<open>
  C9: when the storage layer works and the user exists, \<open>removeFromCart\<close> with a product id
  that has no line in the cart succeeds, answers with the populated cart and leaves the database
  unchanged; and \<open>removeFromCart\<close> is idempotent: a second call with the same user and product
  gives the same response and the same database as the first.
\<close>

theorem removeFromCart_absent_idempotent:
  "(castObjectId uid = Some cuid \<and> users s cuid = Some u \<and> pid \<notin> productId ` set (cart u) \<longrightarrow>
      removeFromCart [] uid pid s = (Inr (populate s (cart u)), s)) \<and>
   removeFromCart [] uid pid (snd (removeFromCart [] uid pid s)) = removeFromCart [] uid pid s"
  using removeFromCart_absent removeFromCart_twice by blast

theorem removeFromCart_absent_idempotent_witness:
  "castObjectId alice = Some alice \<and>
   users shop alice = Some (shopper [line p1 3]) \<and>
   p2 \<notin> productId ` set (cart (shopper [line p1 3])) \<and>
   removeFromCart [] alice p2 shop = (Inr (populate shop (cart (shopper [line p1 3]))), shop) \<and>
   removeFromCart [] alice p1 (snd (removeFromCart [] alice p1 shop)) =
     removeFromCart [] alice p1 shop"
proof -
  have c: "castObjectId alice = Some alice"
    by (simp add: id_defs)
  have u: "users shop alice = Some (shopper [line p1 3])"
    by (simp add: shop_defs id_defs)
  have a: "p2 \<notin> productId ` set (cart (shopper [line p1 3]))"
    by (simp add: shop_defs id_defs)
  show ?thesis
    using c u a
      removeFromCart_absent_idempotent [of alice alice shop "shopper [line p1 3]" p2]
      removeFromCart_absent_idempotent [of alice alice shop "shopper [line p1 3]" p1]
    by blast
qed

section \<open>Totals\<close>

lemma cartTotal_sum:
  "cartTotal acc xs = Some t \<Longrightarrow>
     (\<forall>item\<in>set xs. doc item \<noteq> None) \<and>
     t = foldl js_add acc
           (map (\<lambda>item. case doc item of None \<Rightarrow> Num 0
                                | Some p \<Rightarrow> js_mul (price p) (qty item)) xs)"
proof (induction xs arbitrary: acc)
  case Nil
  then show ?case by simp
next
  case (Cons a xs)
  then obtain p where p: "doc a = Some p"
    by (cases "doc a") auto
  with Cons.prems have "cartTotal (js_add acc (js_mul (price p) (qty a))) xs = Some t"
    by simp
  from Cons.IH[OF this] show ?case
    using p by simp
qed

lemma getCart_success:
  assumes "getCart fl uid s = (Inr v, s')"
  shows "\<exists>cuid u. castObjectId uid = Some cuid \<and> users s cuid = Some u \<and>
             view_cart v = populate s (cart u) \<and>
             cartTotal (Num 0) (populate s (cart u)) = Some (view_total v)"
  using assms by (auto simp: getCart_def split: if_splits option.splits)

text \<open>
  C10: the total a successful \<open>getCart\<close> returns is the plain sum of price times quantity over
  the populated cart lines, every line having its product, as the program's arithmetic gives
  it; no tax is added and nothing is rounded to two decimals. It can differ from what checkout
  stores for the same cart: for a cart of one item priced 0.246, \<open>getCart\<close> reports 0.246 while
  checkout stores subtotal 0.25 and total 0.27.
\<close>

theorem getCart_total_unrounded:
  "(getCart fl uid s = (Inr v, s') \<longrightarrow>
      (\<exists>cuid u. castObjectId uid = Some cuid \<and> users s cuid = Some u \<and>
               view_cart v = populate s (cart u)) \<and>
      (\<forall>item\<in>set (view_cart v). doc item \<noteq> None) \<and>
      view_total v =
        js_sum (map (\<lambda>item. case doc item of None \<Rightarrow> Num 0
                                 | Some p \<Rightarrow> js_mul (price p) (qty item)) (view_cart v))) \<and>
   map_sum id view_total (fst (getCart [] dave shop)) = Inr (f64 (246 / 1000)) \<and>
   map_sum id order_totals (fst (checkout [] dave o1 shop)) =
     Inr (f64 (25 / 100), f64 (2 / 100), f64 (27 / 100))"
proof (intro conjI impI)
  assume a: "getCart fl uid s = (Inr v, s')"
  from getCart_success[OF a] obtain cuid u where
    u: "castObjectId uid = Some cuid \<and> users s cuid = Some u \<and>
        view_cart v = populate s (cart u) \<and>
        cartTotal (Num 0) (populate s (cart u)) = Some (view_total v)"
    by blast
  then show "\<exists>cuid u. castObjectId uid = Some cuid \<and> users s cuid = Some u \<and>
               view_cart v = populate s (cart u)"
    by blast
  from u have c: "cartTotal (Num 0) (view_cart v) = Some (view_total v)"
    by simp
  from cartTotal_sum[OF c] show "\<forall>item\<in>set (view_cart v). doc item \<noteq> None"
    by blast
  from cartTotal_sum[OF c]
  show "view_total v =
        js_sum (map (\<lambda>item. case doc item of None \<Rightarrow> Num 0
                                 | Some p \<Rightarrow> js_mul (price p) (qty item)) (view_cart v))"
    by (simp add: js_sum_def)
next
  show "map_sum id view_total (fst (getCart [] dave shop)) = Inr (f64 (246 / 1000))"
    by (simp add: handler_defs shop_defs id_defs num_eval)
next
  show "map_sum id order_totals (fst (checkout [] dave o1 shop)) =
     Inr (f64 (25 / 100), f64 (2 / 100), f64 (27 / 100))"
    by (simp add: checkout_defs shop_defs id_defs order_totals_def num_eval)
qed

theorem getCart_total_unrounded_witness:
  "getCart [] erin shop =
     (Inr \<lparr>view_cart = populate shop [line p1 2, line p2 3],
            view_total = f64 (35015 / 1000), itemCount = 2\<rparr>, shop) \<and>
   js_sum (map (\<lambda>item. case doc item of None \<Rightarrow> Num 0
                            | Some p \<Rightarrow> js_mul (price p) (qty item))
             (populate shop [line p1 2, line p2 3])) = f64 (35015 / 1000)"
proof -
  have g: "getCart [] erin shop =
     (Inr \<lparr>view_cart = populate shop [line p1 2, line p2 3],
            view_total = f64 (35015 / 1000), itemCount = 2\<rparr>, shop)"
    by (simp add: handler_defs shop_defs id_defs num_eval)
  show ?thesis
    using g getCart_total_unrounded [of "[]" erin shop
        "\<lparr>view_cart = populate shop [line p1 2, line p2 3],
          view_total = f64 (35015 / 1000), itemCount = 2\<rparr>" shop]
    by simp
qed

lemma foldl_subtotal:
  "foldl (\<lambda>acc item. js_add acc (item_subtotal item)) a its =
   foldl js_add a (map item_subtotal its)"
  by (induction its arbitrary: a) auto

lemma rawSubtotal_sum: "rawSubtotal its = js_sum (map item_subtotal its)"
  by (simp add: rawSubtotal_def js_sum_def foldl_subtotal)

lemma orderItems_subtotal:
  "orderItems xs = Some its \<Longrightarrow>
     map item_subtotal its = map (\<lambda>it. js_mul (item_price it) (item_quantity it)) its"
  by (induction xs arbitrary: its) (auto split: option.splits)

lemma orderItems_snapshot:
  "orderItems (populate s c) = Some its \<Longrightarrow>
     map item_productId its = map productId c \<and> map item_quantity its = map cart_quantity c \<and>
     (\<forall>it\<in>set its. \<exists>p. products s (item_productId it) = Some p \<and> item_price it = price p)"
  by (induction c arbitrary: its) (auto simp: populate_def split: option.splits)

text \<open>What a successful checkout has done, read off the handler.\<close>

lemma checkout_success:
  assumes "checkout fl uid newId s = (Inr ord, s')"
  shows "\<exists>cuid u its. castObjectId uid = Some cuid \<and> users s cuid = Some u \<and> cart u \<noteq> [] \<and>
           validateStock fl s 0 (populate s (cart u)) = None \<and>
           orderItems (populate s (cart u)) = Some its \<and>
           ord = newOrder newId cuid u its (length (orders s)) \<and>
           updateQuantities fl 0 (populate s (cart u)) (products s) = (products s', False) \<and>
           orders s' = orders s @ [ord] \<and>
           users s' = (users s)(cuid \<mapsto> u\<lparr>cart := []\<rparr>)"
  using assms
  by (auto simp: checkout_def checkout_validate_def checkout_count_def checkout_save_def
                 checkout_fulfil_def Let_def prod_eq_iff
           split: sum.splits if_splits option.splits)

lemma checkout_totals_general:
  assumes "checkout fl uid newId s = (Inr ord, s')"
  shows "order_totals ord =
           js_totals (map (\<lambda>it. (item_price it, item_quantity it)) (items ord))"
proof -
  from checkout_success[OF assms] obtain cuid u its where
    h: "orderItems (populate s (cart u)) = Some its \<and>
        ord = newOrder newId cuid u its (length (orders s))"
    by blast
  have m: "map item_subtotal its = map (\<lambda>it. js_mul (item_price it) (item_quantity it)) its"
    using h orderItems_subtotal by blast
  have raw: "rawSubtotal its =
      js_sum (map (\<lambda>(unitPrice, n). js_mul unitPrice n)
                (map (\<lambda>it. (item_price it, item_quantity it)) its))"
    by (simp add: rawSubtotal_sum m comp_def)
  have "order_totals ord =
      (orderSubtotal (rawSubtotal its), orderTax (rawSubtotal its), orderTotal (rawSubtotal its))"
    using h by (simp add: order_totals_def newOrder_def)
  also have "\<dots> = js_totals (map (\<lambda>it. (item_price it, item_quantity it)) its)"
    by (simp only: js_totals_def Let_def orderSubtotal_def orderTax_def orderTotal_def raw)
  finally show ?thesis
    using h by (simp add: newOrder_def)
qed

lemma checkout_items_snapshot:
  assumes "checkout fl uid newId s = (Inr ord, s')"
  shows "\<exists>cuid u. castObjectId uid = Some cuid \<and> users s cuid = Some u \<and>
           map item_productId (items ord) = map productId (cart u) \<and>
           map item_quantity (items ord) = map cart_quantity (cart u) \<and>
           (\<forall>it\<in>set (items ord). \<exists>p. products s (item_productId it) = Some p \<and>
                                     item_price it = price p)"
proof -
  from checkout_success[OF assms] obtain cuid u its where
    h: "castObjectId uid = Some cuid \<and> users s cuid = Some u \<and>
        orderItems (populate s (cart u)) = Some its \<and>
        ord = newOrder newId cuid u its (length (orders s))"
    by blast
  then have "items ord = its"
    by (simp add: newOrder_def)
  then show ?thesis
    using h orderItems_snapshot[of s "cart u" its] by auto
qed

text \<open>
  C4 (as amended): the order a successful checkout stores has the lines of the cart, each with
  the price of its product and the quantity of its cart line, and its three amounts are the
  totals of the program's pricing rule applied to those lines: with \<open>S\<close> the sum of unit
  price times quantity over the lines (no line is rounded), the subtotal is
  \<open>Math.round(S \<times> 100) / 100\<close>, the tax is \<open>Math.round(S \<times> 0.1 \<times> 100) / 100\<close>, taken from
  the sum \<open>S\<close> and not from the rounded subtotal, and the total is
  \<open>Math.round((S + tax) \<times> 100) / 100\<close>, all in the program's arithmetic. For the items
  \<open>[(10.00, 2), (5.005, 3)]\<close> the stored order has subtotal 35.02, tax 3.50 and total 38.52.
\<close>

theorem checkout_totals:
  "(checkout fl uid newId s = (Inr ord, s') \<longrightarrow>
      (\<exists>cuid u. castObjectId uid = Some cuid \<and> users s cuid = Some u \<and>
           map item_productId (items ord) = map productId (cart u) \<and>
           map item_quantity (items ord) = map cart_quantity (cart u) \<and>
           (\<forall>it\<in>set (items ord). \<exists>p. products s (item_productId it) = Some p \<and>
                                     item_price it = price p)) \<and>
      order_totals ord =
        js_totals (map (\<lambda>it. (item_price it, item_quantity it)) (items ord))) \<and>
   map_sum id order_totals (fst (checkout [] erin o1 shop)) =
     Inr (f64 (3502 / 100), f64 (350 / 100), f64 (3852 / 100))"
proof (intro conjI impI)
  show "map_sum id order_totals (fst (checkout [] erin o1 shop)) =
     Inr (f64 (3502 / 100), f64 (350 / 100), f64 (3852 / 100))"
    by (simp add: checkout_defs shop_defs id_defs order_totals_def num_eval)
qed (use checkout_totals_general checkout_items_snapshot in blast)+

theorem checkout_totals_witness:
  "\<not> isl (fst (checkout [] dave o1 shop)) \<and>
   order_totals (projr (fst (checkout [] dave o1 shop))) =
     js_totals (map (\<lambda>it. (item_price it, item_quantity it))
                  (items (projr (fst (checkout [] dave o1 shop))))) \<and>
   js_totals [(f64 (246 / 1000), Num 1)] = (f64 (25 / 100), f64 (2 / 100), f64 (27 / 100))"
proof -
  have i: "\<not> isl (fst (checkout [] dave o1 shop))"
    by (simp add: checkout_defs shop_defs id_defs)
  then have c: "checkout [] dave o1 shop =
      (Inr (projr (fst (checkout [] dave o1 shop))), snd (checkout [] dave o1 shop))"
    by (simp add: prod_eq_iff)
  have j: "js_totals [(f64 (246 / 1000), Num 1)] =
      (f64 (25 / 100), f64 (2 / 100), f64 (27 / 100))"
    by (simp add: js_totals_def js_sum_def num_eval)
  show ?thesis
    using i j c
      checkout_totals [of "[]" dave o1 shop "projr (fst (checkout [] dave o1 shop))"
        "snd (checkout [] dave o1 shop)"]
    by simp
qed

text \<open>
  The pricing rule as the specification words it takes the tax from the rounded subtotal. For
  one item priced 0.246 that rule gives tax 0.03 and total 0.28, while the stored order has
  tax 0.02 and total 0.27. For one item priced 0.35 that rule gives tax 0.04 and total 0.39,
  while the stored order has tax 0.03 and total 0.38.
\<close>

theorem checkout_totals_counterexample:
  "map_sum id order_totals (fst (checkout [] dave o1 shop)) =
     Inr (f64 (25 / 100), f64 (2 / 100), f64 (27 / 100)) \<and>
   spec_totals [(246 / 1000, 1)] = (25 / 100, 3 / 100, 28 / 100) \<and>
   f64 (2 / 100) \<noteq> f64 (3 / 100) \<and>
   map_sum id order_totals (fst (checkout [] judy o1 shop)) =
     Inr (f64 (35 / 100), f64 (3 / 100), f64 (38 / 100)) \<and>
   spec_totals [(35 / 100, 1)] = (35 / 100, 4 / 100, 39 / 100) \<and>
   f64 (3 / 100) \<noteq> f64 (4 / 100)"
  by (simp add: checkout_defs shop_defs id_defs order_totals_def spec_totals_def round2_def
      num_eval)

section \<open>Order ids\<close>

lemma of_char_digit: "d < 10 \<Longrightarrow> of_char (digit_char d) = 48 + d"
  by (simp add: digit_char_def)

lemma decimal_value_snoc:
  "decimal_value (str @ [c]) = 10 * decimal_value str + (of_char c - 48)"
  by (simp add: decimal_value_def)

lemma decimal_value_String_nat: "decimal_value (String_nat n) = n"
proof (induction n rule: String_nat.induct)
  case (1 n)
  show ?case
  proof (cases "n < 10")
    case True
    then show ?thesis
      by (subst String_nat.simps) (simp add: decimal_value_def of_char_digit)
  next
    case False
    then have "decimal_value (String_nat (n div 10)) = n div 10"
      using "1.IH" by simp
    with False show ?thesis
      by (subst String_nat.simps) (simp add: decimal_value_snoc of_char_digit)
  qed
qed

lemma foldl_zeros:
  "foldl (\<lambda>acc c. 10 * acc + (of_char c - 48)) (0::nat) (replicate k (CHR ''0'')) = 0"
  by (induction k) simp_all

lemma decimal_value_padStart: "decimal_value (padStart w (CHR ''0'') str) = decimal_value str"
  by (simp add: decimal_value_def padStart_def foldl_zeros)

lemma decimal_value_makeOrderId: "decimal_value (drop 4 (makeOrderId n)) = n + 1"
  by (simp add: makeOrderId_def decimal_value_padStart decimal_value_String_nat)

lemma makeOrderId_inj:
  assumes "makeOrderId a = makeOrderId b"
  shows "a = b"
proof -
  have "a + 1 = decimal_value (drop 4 (makeOrderId a))"
    by (simp only: decimal_value_makeOrderId)
  also have "\<dots> = b + 1"
    by (simp only: assms decimal_value_makeOrderId)
  finally show ?thesis by simp
qed

lemma makeOrderId_first: "makeOrderId 0 = ''ORD-001''" "makeOrderId (Suc 0) = ''ORD-002''"
  by code_simp+

lemma checkout_orders:
  "orders (snd (checkout fl uid newId s)) = orders s \<or>
   (\<exists>ord. orders (snd (checkout fl uid newId s)) = orders s @ [ord])"
  by (auto simp: checkout_def checkout_count_def checkout_save_def checkout_fulfil_def Let_def
           split: sum.splits if_splits)

lemma handle_orders: "length (orders s) \<le> length (orders (handle fl r s))"
proof (cases r)
  case (Checkout uid newId)
  then show ?thesis
    using checkout_orders[of fl uid newId s] by auto
qed (simp_all add: addToCart_def getCart_def removeFromCart_def updateCartQuantity_def
       clearCart_def orders_saveCart Let_def split: option.split)

lemma run_orders: "length (orders s) \<le> length (orders (run reqs s))"
proof (induction reqs arbitrary: s)
  case Nil
  then show ?case by simp
next
  case (Cons a reqs)
  obtain fl r where a: "a = (fl, r)" by (cases a)
  have "length (orders s) \<le> length (orders (handle fl r s))"
    by (rule handle_orders)
  also have "\<dots> \<le> length (orders (run reqs (handle fl r s)))"
    by (rule Cons.IH)
  finally show ?case by (simp add: a)
qed

lemma checkout_orderId:
  assumes "checkout fl uid newId s = (Inr ord, s')"
  shows "orderId ord = makeOrderId (length (orders s)) \<and>
         length (orders s') = length (orders s) + 1"
proof -
  from checkout_success[OF assms] obtain cuid u its where
    h: "ord = newOrder newId cuid u its (length (orders s)) \<and> orders s' = orders s @ [ord]"
    by blast
  then show ?thesis
    by (simp add: newOrder_def)
qed

text \<open>
  What the count does secure: a successful checkout gives its order the id \<open>ORD-\<close> followed by
  the padded numeral of one plus the number of orders stored when the orders are counted, and
  of two successful checkouts handled one after the other, with any requests handled in
  between, the later has the greater counter and another id.
\<close>

lemma orderId_successive_checkouts:
  assumes "checkout fl1 uid1 id1 s = (Inr ord1, s1)"
    and "checkout fl2 uid2 id2 (run reqs s1) = (Inr ord2, s2)"
  shows "orderId ord1 =
           ''ORD-'' @ padStart 3 (CHR ''0'') (String_nat (length (orders s) + 1)) \<and>
         orderId ord2 =
           ''ORD-'' @ padStart 3 (CHR ''0'') (String_nat (length (orders (run reqs s1)) + 1)) \<and>
         decimal_value (drop 4 (orderId ord1)) < decimal_value (drop 4 (orderId ord2)) \<and>
         orderId ord1 \<noteq> orderId ord2"
proof -
  have a: "orderId ord1 = makeOrderId (length (orders s))"
    and l: "length (orders s1) = length (orders s) + 1"
    using checkout_orderId[OF assms(1)] by simp_all
  have b: "orderId ord2 = makeOrderId (length (orders (run reqs s1)))"
    using checkout_orderId[OF assms(2)] by simp
  have lt: "length (orders s) < length (orders (run reqs s1))"
    using run_orders[of s1 reqs] l by simp
  have ne: "orderId ord1 \<noteq> orderId ord2"
    using makeOrderId_inj[of "length (orders s)" "length (orders (run reqs s1))"] lt a b
    by auto
  show ?thesis
    using lt ne
    by (simp add: a b decimal_value_makeOrderId) (simp add: makeOrderId_def)
qed

text \<open>
  C5: the same order id is returned twice. Two checkouts in flight together, by \<open>alice\<close> and
  by \<open>bob\<close>, each count the orders before the other has saved its order: both count none,
  both succeed, both responses carry the order id \<open>ORD-001\<close>, and two orders with that id
  are stored.
\<close>

theorem checkout_duplicate_orderId:
  "map_option (map_sum id orderId \<circ> fst) (checkout_lockstep alice o1 bob o2 shop) =
     Some (Inr ''ORD-001'') \<and>
   map_option (map_sum id orderId \<circ> fst \<circ> snd) (checkout_lockstep alice o1 bob o2 shop) =
     Some (Inr ''ORD-001'') \<and>
   map_option (map orderId \<circ> orders \<circ> snd \<circ> snd) (checkout_lockstep alice o1 bob o2 shop) =
     Some [''ORD-001'', ''ORD-001'']"
  by (simp add: checkout_lockstep_def checkout_defs shop_defs id_defs Let_def
      makeOrderId_first)

section \<open>Product status\<close>

lemma withStatus_apply:
  "withStatus pid st ps x =
     (if x = pid then map_option (\<lambda>p. p\<lparr>status := st\<rparr>) (ps x) else ps x)"
  by (simp add: withStatus_def split: option.split)

lemma setStatus_fields:
  "users (setStatus pid st s) = users s"
  "orders (setStatus pid st s) = orders s"
  "products (setStatus pid st s) = withStatus pid st (products s)"
  by (simp_all add: setStatus_def)

lemma validateStock_setStatus:
  "validateStock fl (setStatus pid st s) i (populate (setStatus pid st s) c) =
   validateStock fl s i (populate s c)"
  by (induction c arbitrary: i)
     (auto simp: populate_def setStatus_fields withStatus_apply split: option.splits)

lemma orderItems_setStatus:
  "orderItems (populate (setStatus pid st s) c) = orderItems (populate s c)"
  by (induction c)
     (auto simp: populate_def setStatus_fields withStatus_apply split: option.splits)

lemma incQuantity_withStatus:
  "incQuantity x d (withStatus pid st ps) = withStatus pid st (incQuantity x d ps)"
  by (rule ext) (auto simp: incQuantity_def withStatus_apply split: option.splits)

lemma updateQuantities_withStatus:
  "updateQuantities fl i (populate s1 c) (withStatus pid st ps) =
     (withStatus pid st (fst (updateQuantities fl i (populate s2 c) ps)),
      snd (updateQuantities fl i (populate s2 c) ps))"
  by (induction c arbitrary: i ps) (auto simp: populate_def incQuantity_withStatus)

lemma checkout_setStatus:
  "checkout fl uid newId (setStatus pid st s) =
     (fst (checkout fl uid newId s), setStatus pid st (snd (checkout fl uid newId s)))"
  apply (simp add: checkout_def checkout_validate_def setStatus_fields
      validateStock_setStatus orderItems_setStatus split: option.split)
  apply (auto simp: checkout_count_def checkout_save_def checkout_fulfil_def Let_def
      setStatus_fields updateQuantities_withStatus[where ?s2.0 = s] setStatus_def)
  done

lemma saveCart_setStatus:
  "map_sum id (map (\<lambda>item. (ref item, qty item)))
     (fst (saveCart fl cuid u (setStatus pid st s))) =
   map_sum id (map (\<lambda>item. (ref item, qty item))) (fst (saveCart fl cuid u s)) \<and>
   snd (saveCart fl cuid u (setStatus pid st s)) = setStatus pid st (snd (saveCart fl cuid u s))"
  by (simp add: saveCart_def reloadCart_def Let_def setStatus_def populate_def)

lemma addToCart_setStatus:
  "map_sum id (map (\<lambda>item. (ref item, qty item)))
     (fst (addToCart fl uid pid q (setStatus pid' st s))) =
   map_sum id (map (\<lambda>item. (ref item, qty item))) (fst (addToCart fl uid pid q s)) \<and>
   snd (addToCart fl uid pid q (setStatus pid' st s)) =
     setStatus pid' st (snd (addToCart fl uid pid q s))"
  by (auto simp: addToCart_def Let_def setStatus_fields withStatus_apply saveCart_setStatus
      split: option.splits)

text \<open>
  C6 (as amended): \<open>addToCart\<close> and \<open>checkout\<close> do not consult the status of a product.
  Giving any product any status changes neither the outcome of \<open>addToCart\<close> (the same failure,
  or the same cart lines in the response) nor that of \<open>checkout\<close> (the same failure or the same
  order), and the database they leave differs only by that status: a product that is inactive
  or discontinued is added to carts and ordered exactly as if it were active.
\<close>

theorem status_not_consulted:
  "map_sum id (map (\<lambda>item. (ref item, qty item)))
     (fst (addToCart fl uid pid q (setStatus pid' st s))) =
   map_sum id (map (\<lambda>item. (ref item, qty item))) (fst (addToCart fl uid pid q s)) \<and>
   snd (addToCart fl uid pid q (setStatus pid' st s)) =
     setStatus pid' st (snd (addToCart fl uid pid q s)) \<and>
   fst (checkout fl uid newId (setStatus pid' st s)) = fst (checkout fl uid newId s) \<and>
   snd (checkout fl uid newId (setStatus pid' st s)) =
     setStatus pid' st (snd (checkout fl uid newId s))"
  by (simp add: addToCart_setStatus checkout_setStatus)

theorem status_not_consulted_witness:
  "fst (checkout [] alice o1 (setStatus p1 Inactive shop)) = fst (checkout [] alice o1 shop) \<and>
   \<not> isl (fst (checkout [] alice o1 shop))"
proof -
  have "\<not> isl (fst (checkout [] alice o1 shop))"
    by (simp add: checkout_defs shop_defs id_defs)
  then show ?thesis
    using status_not_consulted [of "[]" alice p1 "Num 1" p1 Inactive shop o1]
    by simp
qed

text \<open>
  The product \<open>p4\<close> is discontinued and has 4 in stock: \<open>addToCart\<close> puts it in the cart and
  the checkout that follows stores an order containing it.
\<close>

theorem inactive_product_purchasable_counterexample:
  "map_option status (products shop p4) = Some Discontinued \<and>
   map_sum id (map ref) (fst (addToCart [] frank p4 (Num 1) shop)) = Inr [p4] \<and>
   map_sum id (map item_productId \<circ> items)
     (fst (checkout [] frank o1 (snd (addToCart [] frank p4 (Num 1) shop)))) =
   Inr [p4]"
  by (simp add: checkout_defs handler_defs shop_defs id_defs num_eval)

section \<open>Checkout: failure and stock\<close>

lemma updateQuantities_threw:
  "snd (updateQuantities fl i xs ps) \<Longrightarrow> \<exists>j. UpdateProduct j \<in> set fl"
  by (induction xs arbitrary: i ps) (auto split: if_splits)

lemma checkout_failure_cases:
  assumes "checkout fl uid newId s = (Inl e, s')"
  shows "s' = s \<or>
         e = InternalError \<and> ((\<exists>j. UpdateProduct j \<in> set fl) \<or> SaveUser \<in> set fl)"
  using assms updateQuantities_threw
  by (auto simp: checkout_def checkout_count_def checkout_save_def checkout_fulfil_def Let_def
           split: sum.splits if_splits)

text \<open>
  C3 (as amended): if checkout fails with any outcome other than the internal error (user
  not found, empty cart, product not found, insufficient stock), or fails with the internal
  error in a run in which neither a stock update nor the final save of the user throws (so the
  throw came while reading the user, validating the lines, counting the orders or saving the
  order), then the users (and so every cart), the products (and so every stock) and the
  orders are as they were, and \<open>getOrderById\<close> answers as before: no order of this attempt
  is visible.
\<close>

theorem checkout_failure_unchanged:
  assumes "checkout fl uid newId s = (Inl e, s')"
    and "e \<noteq> InternalError \<or> (\<forall>j. UpdateProduct j \<notin> set fl) \<and> SaveUser \<notin> set fl"
  shows "users s' = users s \<and> products s' = products s \<and> orders s' = orders s \<and>
         getOrderById fl' ordId uid' s' = getOrderById fl' ordId uid' s"
proof -
  have "s' = s"
    using checkout_failure_cases[OF assms(1)] assms(2) by auto
  then show ?thesis by simp
qed

theorem checkout_failure_unchanged_witness:
  "checkout [CountOrders] alice o1 shop =
     (Inl InternalError, snd (checkout [CountOrders] alice o1 shop)) \<and>
   (\<forall>j. UpdateProduct j \<notin> set [CountOrders]) \<and> SaveUser \<notin> set [CountOrders] \<and>
   users (snd (checkout [CountOrders] alice o1 shop)) = users shop \<and>
   products (snd (checkout [CountOrders] alice o1 shop)) = products shop \<and>
   orders (snd (checkout [CountOrders] alice o1 shop)) = orders shop \<and>
   checkout [] frank o1 shop = (Inl EmptyCart, snd (checkout [] frank o1 shop)) \<and>
   EmptyCart \<noteq> InternalError \<and>
   users (snd (checkout [] frank o1 shop)) = users shop \<and>
   products (snd (checkout [] frank o1 shop)) = products shop \<and>
   orders (snd (checkout [] frank o1 shop)) = orders shop"
proof -
  have a: "checkout [CountOrders] alice o1 shop =
      (Inl InternalError, snd (checkout [CountOrders] alice o1 shop))"
    by (simp add: checkout_defs shop_defs id_defs)
  have a': "InternalError \<noteq> InternalError \<or>
      (\<forall>j. UpdateProduct j \<notin> set [CountOrders]) \<and> SaveUser \<notin> set [CountOrders]"
    by simp
  have b: "checkout [] frank o1 shop = (Inl EmptyCart, snd (checkout [] frank o1 shop))"
    by (simp add: checkout_defs shop_defs id_defs)
  have b': "EmptyCart \<noteq> InternalError \<or>
      (\<forall>j. UpdateProduct j \<notin> set []) \<and> SaveUser \<notin> set []"
    by simp
  show ?thesis
    using checkout_failure_unchanged [OF a a'] checkout_failure_unchanged [OF b b'] a b
    by simp
qed

text \<open>
  A throw of the final \<open>user.save()\<close> makes the checkout fail after the order has been stored
  and the stock reduced; a throw of the second stock update leaves the first one applied. In
  both runs the order of the failed attempt is found by \<open>getOrderById\<close>.
\<close>

theorem checkout_failure_partial_counterexample:
  "fst (checkout [SaveUser] alice o1 shop) = Inl InternalError \<and>
   stock p1 shop = Some (Num 5) \<and>
   stock p1 (snd (checkout [SaveUser] alice o1 shop)) = Some (Num 2) \<and>
   getOrderById [] o1 alice shop = Inl OrderNotFound \<and>
   \<not> isl (getOrderById [] o1 alice (snd (checkout [SaveUser] alice o1 shop))) \<and>
   fst (checkout [UpdateProduct 1] erin o1 shop) = Inl InternalError \<and>
   stock p1 (snd (checkout [UpdateProduct 1] erin o1 shop)) = Some (Num 3) \<and>
   stock p2 (snd (checkout [UpdateProduct 1] erin o1 shop)) = Some (Num 20) \<and>
   \<not> isl (getOrderById [] o1 erin (snd (checkout [UpdateProduct 1] erin o1 shop)))"
  by (simp add: checkout_defs shop_defs id_defs stock_def getOrderById_def num_eval)

text \<open>
  C1: the decrement is not conditional and nothing is rolled back. Two checkouts in flight
  together, each for 3 of a product with 5 in stock: both pass the validation loop, both
  orders are stored (as \<open>ORD-001\<close> and \<open>ORD-002\<close>), neither request fails with
  \<open>InsufficientStock\<close>, and the second decrement is applied to a stock of 2, leaving \<open>-1\<close>.
  The decrement loop on its own, run for a line of 3 against a stock of 2, leaves \<open>-1\<close> as
  well.
\<close>

theorem checkout_lost_race:
  "stock p1 shop = Some (Num 5) \<and>
   map_option (map_prod isl (map_prod isl (length \<circ> orders)))
     (checkout_overlapped alice o1 bob o2 shop) = Some (False, False, 2) \<and>
   map_option (map orderId \<circ> orders \<circ> snd \<circ> snd)
     (checkout_overlapped alice o1 bob o2 shop) = Some [''ORD-001'', ''ORD-002''] \<and>
   map_option (stock p1 \<circ> snd \<circ> snd)
     (checkout_overlapped alice o1 bob o2 shop) = Some (Some (Num (- 1))) \<and>
   fst (updateQuantities [] 0 (populate shop [line p1 3])
          [p1 \<mapsto> widget\<lparr>quantity := Num 2\<rparr>]) p1 =
     Some (widget\<lparr>quantity := Num (- 1)\<rparr>)"
  by (simp add: checkout_overlapped_def checkout_defs shop_defs id_defs stock_def
      makeOrderId_first num_eval)

text \<open>
  What the validation loop does secure: one checkout, run with no other request in between, on
  a cart with one line per product, finite quantities and finite non-negative stocks, leaves
  every stock non-negative.
\<close>

lemma pow2_pos: "0 < pow2 k"
  by (simp add: pow2_def)

lemma round_even_nonneg: "0 \<le> x \<Longrightarrow> 0 \<le> round_even x"
  by (auto simp: round_even_def Let_def)

lemma f64_nonneg: "0 \<le> x \<Longrightarrow> js_le (Num 0) (f64 x)"
proof (cases "x = 0")
  case True
  then show ?thesis by (simp add: f64_def)
next
  case False
  assume "0 \<le> x"
  with False have x: "0 < x" by simp
  define u where "u = pow2 (max (exponent \<bar>x\<bar>) (- 1022) - 52)"
  have u: "0 < u" by (simp add: u_def pow2_pos)
  have "0 \<le> x / u" using x u by simp
  then have "0 \<le> round_even (x / u)" by (rule round_even_nonneg)
  then have "0 \<le> (of_int (round_even (x / u)) :: rat) * u"
    using u by simp
  then show ?thesis
    using x False by (simp add: f64_def Let_def u_def)
qed

lemma validateStock_None:
  "validateStock fl s i (populate s c) = None \<Longrightarrow>
     \<forall>item\<in>set c. \<exists>p. products s (productId item) = Some p \<and>
                        \<not> js_lt (quantity p) (cart_quantity item)"
  by (induction c arbitrary: i) (auto simp: populate_def split: option.splits if_splits)

lemma updateQuantities_nonneg:
  assumes "distinct (map productId c)"
    and "\<forall>item\<in>set c. \<exists>p a b. ps (productId item) = Some p \<and> quantity p = Num a \<and>
            cart_quantity item = Num b \<and> \<not> js_lt (quantity p) (cart_quantity item)"
    and "\<forall>pid p. ps pid = Some p \<longrightarrow> js_le (Num 0) (quantity p)"
  shows "\<forall>pid p. fst (updateQuantities fl i (populate s c) ps) pid = Some p \<longrightarrow>
                  js_le (Num 0) (quantity p)"
  using assms
proof (induction c arbitrary: i ps)
  case Nil
  then show ?case by (simp add: populate_def)
next
  case (Cons x c)
  show ?case
  proof (cases "UpdateProduct i \<in> set fl")
    case True
    then show ?thesis using Cons.prems(3) by (simp add: populate_def)
  next
    case False
    let ?ps = "incQuantity (productId x) (js_neg (cart_quantity x)) ps"
    from Cons.prems(2) obtain p a b where
      p: "ps (productId x) = Some p" "quantity p = Num a" "cart_quantity x = Num b"
         "\<not> js_lt (quantity p) (cart_quantity x)"
      by auto
    then have ba: "b \<le> a" by simp
    have new: "?ps (productId x) = Some (p\<lparr>quantity := f64 (a - b)\<rparr>)"
      using p by (simp add: incQuantity_def)
    have other: "\<And>y. y \<noteq> productId x \<Longrightarrow> ?ps y = ps y"
      using p by (simp add: incQuantity_def)
    have d: "distinct (map productId c)" using Cons.prems(1) by simp
    have "\<forall>item\<in>set c. productId item \<noteq> productId x"
      using Cons.prems(1) by (auto simp: image_iff)
    then have v: "\<forall>item\<in>set c. \<exists>p a b. ?ps (productId item) = Some p \<and> quantity p = Num a \<and>
            cart_quantity item = Num b \<and> \<not> js_lt (quantity p) (cart_quantity item)"
      using Cons.prems(2) other by simp
    have n: "\<forall>pid p. ?ps pid = Some p \<longrightarrow> js_le (Num 0) (quantity p)"
    proof (intro allI impI)
      fix pid q assume q: "?ps pid = Some q"
      show "js_le (Num 0) (quantity q)"
      proof (cases "pid = productId x")
        case True
        with q new have "quantity q = f64 (a - b)" by auto
        then show ?thesis using f64_nonneg[of "a - b"] ba by simp
      next
        case False
        with q other Cons.prems(3) show ?thesis by auto
      qed
    qed
    from Cons.IH[OF d v n, of "Suc i"] show ?thesis
      using False by (simp add: populate_def)
  qed
qed

lemma checkout_alone_nonneg:
  assumes "castObjectId uid = Some cuid" and "users s cuid = Some u"
    and "distinct (map productId (cart u))"
    and "\<forall>item\<in>set (cart u). \<exists>b. cart_quantity item = Num b"
    and "\<forall>pid p. products s pid = Some p \<longrightarrow> (\<exists>a. quantity p = Num a \<and> 0 \<le> a)"
  shows "\<forall>pid p. products (snd (checkout fl uid newId s)) pid = Some p \<longrightarrow>
                  js_le (Num 0) (quantity p)"
proof -
  have nn: "\<forall>pid p. products s pid = Some p \<longrightarrow> js_le (Num 0) (quantity p)"
    using assms(5) by fastforce
  show ?thesis
  proof (cases "checkout_validate fl uid s")
    case (Inl e)
    then show ?thesis
      using nn by (simp add: checkout_def)
  next
    case (Inr vc)
    then have v: "validateStock fl s 0 (populate s (cart u)) = None"
      and c: "vc_cart vc = populate s (cart u)"
      using assms(1,2)
      by (auto simp: checkout_validate_def split: if_splits option.splits)
    have w: "\<forall>item\<in>set (cart u). \<exists>p a b. products s (productId item) = Some p \<and>
              quantity p = Num a \<and> cart_quantity item = Num b \<and>
              \<not> js_lt (quantity p) (cart_quantity item)"
      using validateStock_None[OF v] assms(4,5) by fastforce
    have n: "\<forall>pid p. fst (updateQuantities fl 0 (populate s (cart u)) (products s)) pid = Some p
               \<longrightarrow> js_le (Num 0) (quantity p)"
      using updateQuantities_nonneg[OF assms(3) w nn] .
    show ?thesis
      using Inr n nn c
      by (auto simp: checkout_def checkout_count_def checkout_save_def checkout_fulfil_def
          Let_def split: sum.splits)
  qed
qed

text \<open>
  C2: the stock of a product can become negative, and more can be sold than was in stock.
  Product \<open>p1\<close> starts with 5. (1) One checkout of a cart holding two lines of 3 for \<open>p1\<close>
  passes the validation loop (each line is compared with the 5 in stock), stores an order for
  6 and leaves the stock at \<open>-1\<close>. (2) Two checkouts in flight together, each for 3 of
  \<open>p1\<close>, both succeed and leave the stock at \<open>-1\<close>.
\<close>

theorem checkout_oversell:
  "stock p1 shop = Some (Num 5) \<and>
   stock p1 (run [([], Checkout carol o1)] shop) = Some (Num (- 1)) \<and>
   map (map item_quantity \<circ> items) (orders (run [([], Checkout carol o1)] shop)) =
     [[Num 3, Num 3]] \<and>
   map_option (stock p1 \<circ> snd \<circ> snd)
     (checkout_overlapped alice o1 bob o2 shop) = Some (Some (Num (- 1)))"
  by (simp add: checkout_overlapped_def checkout_defs shop_defs id_defs stock_def num_eval)

section \<open>Cart lines per product\<close>

text \<open>
  C7: the cart can hold two lines for one product, and a merge beyond the stock can pass.
  \<open>alice\<close> has one line, 3 of \<open>p1\<close>, and \<open>p1\<close> has 5 in stock. A request to add 2 of
  \<open>p1\<close> under the same id string merges into that line (quantity 5). The same request with
  the id written with an upper-case digit finds the product, since \<open>findById\<close> casts the id,
  but not the line, since the line is sought by comparing strings: it succeeds and leaves two
  lines for \<open>p1\<close>, of 3 and of 2. And with \<open>2\<^sup>5\<^sup>3\<close> of \<open>p5\<close> in stock and in the cart of
  \<open>heidi\<close>, adding 1 more succeeds, because the sum is rounded back to \<open>2\<^sup>5\<^sup>3\<close>.
\<close>

theorem addToCart_duplicate_line:
  "castObjectId p1_upper = Some p1 \<and>
   map_option (map productId \<circ> cart) (users shop alice) = Some [p1] \<and>
   map_option (map cart_quantity \<circ> cart)
     (users (run [([], AddToCart alice p1 (Num 2))] shop) alice) = Some [Num 5] \<and>
   map_sum id (map ref) (fst (addToCart [] alice p1_upper (Num 2) shop)) = Inr [p1, p1] \<and>
   map_option (map productId \<circ> cart)
     (users (snd (addToCart [] alice p1_upper (Num 2) shop)) alice) = Some [p1, p1] \<and>
   map_option (map cart_quantity \<circ> cart)
     (users (snd (addToCart [] alice p1_upper (Num 2) shop)) alice) = Some [Num 3, Num 2] \<and>
   stock p5 shop = Some (Num (2 ^ 53)) \<and>
   map_option (map cart_quantity \<circ> cart)
     (users (run [([], AddToCart heidi p5 (Num (2 ^ 53)))] shop) heidi) = Some [Num (2 ^ 53)] \<and>
   \<not> isl (fst (addToCart [] heidi p5 (Num 1)
                 (run [([], AddToCart heidi p5 (Num (2 ^ 53)))] shop))) \<and>
   map_option (map cart_quantity \<circ> cart)
     (users (run [([], AddToCart heidi p5 (Num (2 ^ 53))), ([], AddToCart heidi p5 (Num 1))] shop)
        heidi) = Some [Num (2 ^ 53)]"
  by (simp add: handler_defs shop_defs id_defs stock_def num_eval)

end
